theory Spec2Isabelle
  imports Main "HOL-Library.Char_ord" "HOL-Library.List_Lexorder"
begin

section \<open>The SyncTarget export controller (synctargetexports\_controller.go)\<close>

text \<open>
  The controller keeps \<open>Status.SyncedResources\<close> of a SyncTarget up to date. Everything it
  does to the outside (calls on the work queue, reports to the error sink, log lines, calls
  of the two reconciler steps and the status patch) is recorded, in program order, as a list
  of events that each function returns beside its result. Everything it reads from the
  outside (the store, the index, the library functions and the reconciler steps, whose code
  lives in other files and packages) is a field of the record \<open>env\<close>.
\<close>

subsection \<open>Data\<close>

text \<open>The fields of \<open>metav1.ObjectMeta\<close> that the controller reads. A Go map read of a
  missing key gives the empty string.\<close>

record ObjectMeta =
  Name :: string
  UID :: string
  ResourceVersion :: string
  Annotations :: "string \<rightharpoonup> string"

definition annotation :: "(string \<rightharpoonup> string) \<Rightarrow> string \<Rightarrow> string" where
  "annotation m k = (case m k of None \<Rightarrow> [] | Some v \<Rightarrow> v)"

text \<open>Modelled from the spec: the element types of \<open>SupportedAPIExports\<close> and
  \<open>SyncedResources\<close>, whose Go declarations are in package workload/v1alpha1 (section 3: an
  export reference is a \<open>{path, name}\<close> pair, a synced resource a
  \<open>{group, version, resource, identityHash}\<close> tuple).\<close>

record APIExportReference =
  Path :: string
  Export :: string

record ResourceToSync =
  Group :: string
  Version :: string
  Resource :: string
  IdentityHash :: string

record SyncTargetSpec =
  SupportedAPIExports :: "APIExportReference list"

record SyncTargetStatus =
  SyncedResources :: "ResourceToSync list"

record SyncTarget =
  Meta :: ObjectMeta
  Spec :: SyncTargetSpec
  Status :: SyncTargetStatus

record APIExport =
  ExportMeta :: ObjectMeta

text \<open>The zero value of \<open>ObjectMeta\<close> and of \<open>SyncTargetSpec\<close>: what a Go struct literal
  leaves in the fields it does not name.\<close>

definition zeroMeta :: ObjectMeta where
  "zeroMeta = \<lparr>Name = [], UID = [], ResourceVersion = [], Annotations = Map.empty\<rparr>"

definition zeroSpec :: SyncTargetSpec where
  "zeroSpec = \<lparr>SupportedAPIExports = []\<rparr>"

text \<open>An \<open>interface{}\<close> value handed to an event handler.\<close>

datatype obj =
    Nil_obj
  | SyncTarget_obj SyncTarget
  | APIExport_obj APIExport
  | DeletedFinalStateUnknown string obj
  | Other_obj string

fun type_name :: "obj \<Rightarrow> string" where
  "type_name Nil_obj = ''<nil>''"
| "type_name (SyncTarget_obj _) = ''*v1alpha1.SyncTarget''"
| "type_name (APIExport_obj _) = ''*v1alpha1.APIExport''"
| "type_name (DeletedFinalStateUnknown _ _) = ''cache.DeletedFinalStateUnknown''"
| "type_name (Other_obj t) = t"

text \<open>Errors. \<open>Errorf f a w\<close> is \<open>fmt.Errorf\<close> with format \<open>f\<close>, the printed argument \<open>a\<close>
  and the wrapped error \<open>w\<close>; \<open>Aggregate\<close> is what \<open>errors.NewAggregate\<close> builds.\<close>

datatype error =
    NotFound string
  | Err string
  | Errorf string string "error option"
  | Aggregate "error list"

definition NewAggregate :: "error list \<Rightarrow> error option" where
  "NewAggregate errlist = (if errlist = [] then None else Some (Aggregate errlist))"

datatype klog_level = Klog_Errorf | Klog_Infof | Klog_V2_Infof

datatype step = Export_step | APICompatible_step

text \<open>One call to the outside. \<open>Queue_Get k quit\<close> records what \<open>queue.Get\<close> returned;
  \<open>Patch_call cluster name patchType bytes subresources\<close> is the client's \<open>Patch\<close>.\<close>

datatype event =
    Queue_Add string
  | Queue_Get string bool
  | Queue_Done string
  | Queue_AddRateLimited string
  | Queue_Forget string
  | HandleError error
  | Klog klog_level string "string list" "error option"
  | Reconcile step
  | Patch_call string string string string "string list"

text \<open>What the controller reads: library functions (key encoding, logical-cluster
  helpers, JSON), the SyncTarget indexer and lister, the two reconciler steps of
  this package (each returns the working copy and an error or nil) and the answer of the
  API server to a patch.\<close>

record env =
  MetaClusterNamespaceKeyFunc :: "obj \<Rightarrow> error + string"
  SplitMetaClusterNamespaceKey :: "string \<Rightarrow> error + (string \<times> string \<times> string)"
  logicalcluster_From :: "ObjectMeta \<Rightarrow> string"
  Path_Join :: "string \<Rightarrow> string \<Rightarrow> string"
  IndexKeys :: "string \<Rightarrow> string \<Rightarrow> error + string list"
  GetByKey :: "string \<Rightarrow> error + obj"
  syncTargetLister_Get :: "string \<Rightarrow> string \<Rightarrow> error + SyncTarget"
  exportReconciler_reconcile :: "SyncTarget \<Rightarrow> SyncTarget \<times> error option"
  apiCompatibleReconciler_reconcile :: "SyncTarget \<Rightarrow> SyncTarget \<times> error option"
  json_Marshal :: "SyncTarget \<Rightarrow> error + string"
  CreateMergePatch :: "string \<Rightarrow> string \<Rightarrow> error + string"
  Patch :: "string \<Rightarrow> string \<Rightarrow> string \<Rightarrow> string \<Rightarrow> string list \<Rightarrow> error option"

definition ControllerName :: string where
  "ControllerName = ''kcp-synctarget-export-controller''"

definition indexSyncTargetsByExport :: string where
  "indexSyncTargetsByExport = ControllerName @ ''ByExport''"

definition LogicalClusterPathAnnotationKey :: string where
  "LogicalClusterPathAnnotationKey = ''kcp.io/path''"

definition MergePatchType :: string where
  "MergePatchType = ''application/merge-patch+json''"

subsection \<open>process\<close>

text \<open>The errors a step adds to \<open>errs\<close>: \<open>if err != nil { errs = append(errs, err) }\<close>.\<close>

definition append_err :: "error list \<Rightarrow> error option \<Rightarrow> error list" where
  "append_err errs err = (case err of None \<Rightarrow> errs | Some e \<Rightarrow> errs @ [e])"

text \<open>The last part of \<open>process\<close> (from the \<open>DeepEqual\<close> test to the end): the comparison
  of the observed status with the reconciled one, the two documents, the merge patch and the
  call of the client. \<open>equality.Semantic.DeepEqual\<close> on two slices of flat structs is
  equality of the lists (it does not tell a nil slice from an empty one).\<close>

definition persist :: "env \<Rightarrow> string \<Rightarrow> SyncTarget \<Rightarrow> SyncTarget \<Rightarrow> error option \<times> event list" where
  "persist c key syncTarget currentSyncTarget =
    (if SyncedResources (Status syncTarget) = SyncedResources (Status currentSyncTarget)
     then (None, [])
     else
      (case json_Marshal c \<lparr>Meta = zeroMeta, Spec = zeroSpec,
              Status = \<lparr>SyncedResources = SyncedResources (Status syncTarget)\<rparr>\<rparr> of
         Inl err \<Rightarrow>
           (Some (Errorf ''failed to Marshal old data for placement %s: %w'' key (Some err)), [])
       | Inr oldData \<Rightarrow>
      (case json_Marshal c
              \<lparr>Meta = zeroMeta\<lparr>UID := UID (Meta syncTarget),
                                ResourceVersion := ResourceVersion (Meta syncTarget)\<rparr>,
               Spec = zeroSpec,
               Status = \<lparr>SyncedResources = SyncedResources (Status currentSyncTarget)\<rparr>\<rparr> of
         Inl err \<Rightarrow>
           (Some (Errorf ''failed to Marshal new data for LocationDomain %s: %w'' key (Some err)), [])
       | Inr newData \<Rightarrow>
      (case CreateMergePatch c oldData newData of
         Inl err \<Rightarrow>
           (Some err,
            [Klog Klog_Errorf ''Failed to create merge patch for syncTarget %q because: %v''
               [key] (Some err)])
       | Inr patchBytes \<Rightarrow>
          (let clusterName = logicalcluster_From c (Meta currentSyncTarget);
               name = Name (Meta currentSyncTarget);
               evs = [Klog Klog_V2_Infof ''Patching synctarget %s|%s with patch %s''
                        [clusterName, name, patchBytes] None,
                      Patch_call clusterName name MergePatchType patchBytes [''status'']]
           in (case Patch c clusterName name MergePatchType patchBytes [''status''] of
                 Some err \<Rightarrow>
                   (Some err,
                    evs @ [Klog Klog_Errorf ''failed to patch sync target status: %v'' [] (Some err)])
               | None \<Rightarrow> (None, evs)))))))"

text \<open>\<open>process\<close>: split the key, fetch the SyncTarget, run both steps on the deep copy
  (a value here, so the fetched object is untouched), return the aggregate when a step
  failed, and persist otherwise.\<close>

definition process :: "env \<Rightarrow> string \<Rightarrow> error option \<times> event list" where
  "process c key =
    (case SplitMetaClusterNamespaceKey c key of
       Inl err \<Rightarrow> (None, [HandleError err])
     | Inr (cluster, _, name) \<Rightarrow>
      (case syncTargetLister_Get c cluster name of
         Inl err \<Rightarrow>
           (None,
            [Klog Klog_Errorf ''Failed to get syncTarget with key %q because: %v'' [key] (Some err)])
       | Inr syncTarget \<Rightarrow>
          (let (cur1, err1) = exportReconciler_reconcile c syncTarget;
               errs1 = append_err [] err1;
               (cur2, err2) = apiCompatibleReconciler_reconcile c cur1;
               errs2 = append_err errs1 err2;
               evs = [Klog Klog_Infof ''Processing syncTarget %q'' [key] None,
                      Reconcile Export_step, Reconcile APICompatible_step]
           in if length errs2 > 0 then (NewAggregate errs2, evs)
              else (case persist c key syncTarget cur2 of (r, pevs) \<Rightarrow> (r, evs @ pevs)))))"

subsection \<open>The worker\<close>

text \<open>\<open>processNextWorkItem\<close>, given what \<open>queue.Get\<close> returned. The deferred
  \<open>queue.Done\<close> runs last, on both ways out.\<close>

definition processNextWorkItem :: "env \<Rightarrow> string \<times> bool \<Rightarrow> bool \<times> event list" where
  "processNextWorkItem c got =
    (case got of (key, quit) \<Rightarrow>
      if quit then (False, [Queue_Get key quit])
      else
       (case process c key of
          (Some err, evs) \<Rightarrow>
            (True,
             [Queue_Get key quit] @ evs @
             [HandleError (Errorf ''failed to sync %q: %w'' key (Some err)),
              Queue_AddRateLimited key] @ [Queue_Done key])
        | (None, evs) \<Rightarrow>
            (True, [Queue_Get key quit] @ evs @ [Queue_Forget key] @ [Queue_Done key])))"

text \<open>The patch calls among a list of events.\<close>

fun is_patch :: "event \<Rightarrow> bool" where
  "is_patch (Patch_call _ _ _ _ _) = True"
| "is_patch _ = False"

definition patch_calls :: "event list \<Rightarrow> event list" where
  "patch_calls evs = filter is_patch evs"

subsection \<open>The event handlers\<close>

definition enqueueSyncTarget :: "env \<Rightarrow> obj \<Rightarrow> string \<Rightarrow> event list" where
  "enqueueSyncTarget c obj logSuffix =
    (case MetaClusterNamespaceKeyFunc c obj of
       Inl err \<Rightarrow> [HandleError err]
     | Inr key \<Rightarrow>
         [Klog Klog_V2_Infof ''Queueing SyncTarget %q%s'' [key, logSuffix] None, Queue_Add key])"

text \<open>The three closures that \<open>NewController\<close> registers on the SyncTarget informer.
  The update handler asserts the type of both objects; \<open>None\<close> is the panic of a failed
  assertion.\<close>

definition syncTarget_AddFunc :: "env \<Rightarrow> obj \<Rightarrow> event list" where
  "syncTarget_AddFunc c obj = enqueueSyncTarget c obj []"

definition syncTarget_UpdateFunc :: "env \<Rightarrow> obj \<Rightarrow> obj \<Rightarrow> event list option" where
  "syncTarget_UpdateFunc c old obj =
    (case old of
       SyncTarget_obj oldCluster \<Rightarrow>
        (case obj of
           SyncTarget_obj newCluster \<Rightarrow>
             Some (if SupportedAPIExports (Spec oldCluster) \<noteq> SupportedAPIExports (Spec newCluster) \<or>
                      SyncedResources (Status oldCluster) \<noteq> SyncedResources (Status newCluster)
                   then enqueueSyncTarget c obj []
                   else [])
         | _ \<Rightarrow> None)
     | _ \<Rightarrow> None)"

definition syncTarget_DeleteFunc :: "env \<Rightarrow> obj \<Rightarrow> event list" where
  "syncTarget_DeleteFunc c obj = []"

text \<open>\<open>sets.String\<close>: the set is kept as the list of the strings inserted, and \<open>List\<close>
  returns its members sorted.\<close>

definition sets_List :: "string list \<Rightarrow> string list" where
  "sets_List keys = sort (remdups keys)"

text \<open>The loop over \<open>keys.List()\<close> at the end of \<open>enqueueAPIExport\<close>. \<open>GetByKey\<close>
  answers with the object, or with nil when the key is not in the store (its \<open>exists\<close>
  result is dropped by the caller).\<close>

fun enqueueKeys :: "env \<Rightarrow> string \<Rightarrow> string list \<Rightarrow> event list" where
  "enqueueKeys c logSuffix [] = []"
| "enqueueKeys c logSuffix (key # keys) =
    (case GetByKey c key of
       Inl err \<Rightarrow> [HandleError err]
     | Inr syncTarget \<Rightarrow>
         enqueueSyncTarget c syncTarget ('' because of APIExport '' @ key @ logSuffix))
    @ enqueueKeys c logSuffix keys"

definition enqueueAPIExport :: "env \<Rightarrow> obj \<Rightarrow> string \<Rightarrow> event list" where
  "enqueueAPIExport c obj0 logSuffix =
    (let obj = (case obj0 of DeletedFinalStateUnknown _ d \<Rightarrow> d | _ \<Rightarrow> obj0) in
     case obj of
       APIExport_obj export \<Rightarrow>
        (let path = annotation (Annotations (ExportMeta export)) LogicalClusterPathAnnotationKey;
             byPath =
               (if path \<noteq> []
                then IndexKeys c indexSyncTargetsByExport
                       (Path_Join c path (Name (ExportMeta export)))
                else Inr [])
         in case byPath of
              Inl err \<Rightarrow> [HandleError err]
            | Inr pathKeys \<Rightarrow>
               (case IndexKeys c indexSyncTargetsByExport
                       (Path_Join c (logicalcluster_From c (ExportMeta export))
                          (Name (ExportMeta export))) of
                  Inl err \<Rightarrow> [HandleError err]
                | Inr clusterKeys \<Rightarrow>
                    enqueueKeys c logSuffix (sets_List (pathKeys @ clusterKeys))))
     | _ \<Rightarrow>
        [HandleError
           (Errorf ''obj is supposed to be a APIExport, but is %T'' (type_name obj) None)])"

text \<open>The keys handed to \<open>queue.Add\<close> among a list of events, in order.\<close>

fun added_key :: "event \<Rightarrow> string list" where
  "added_key (Queue_Add k) = [k]"
| "added_key _ = []"

definition added_keys :: "event list \<Rightarrow> string list" where
  "added_keys evs = concat (map added_key evs)"

subsection \<open>The worker loop and the queue\<close>

text \<open>\<open>startWorker\<close>: \<open>for c.processNextWorkItem(ctx) {}\<close>. The loop is driven by what
  \<open>queue.Get\<close> returns, one entry per iteration, each with the outside as it is then; when
  the entries are used up the worker is blocked in \<open>Get\<close>.\<close>

fun startWorker :: "(env \<times> string \<times> bool) list \<Rightarrow> event list" where
  "startWorker [] = []"
| "startWorker ((c, got) # rest) =
    (case processNextWorkItem c got of
       (continue, evs) \<Rightarrow> if continue then evs @ startWorker rest else evs)"

text \<open>Modelled from the spec: the rate limiter of the work queue, which is a library
  (section 4.2: \<open>AddRateLimited\<close> applies an exponential backoff per key, \<open>Forget\<close> resets
  the backoff state for that key). The state counts, for each key, the rate-limited re-adds
  since the last \<open>Forget\<close>; the minimum backoff is the count 0.\<close>

fun rateLimiter_step :: "(string \<Rightarrow> nat) \<Rightarrow> event \<Rightarrow> (string \<Rightarrow> nat)" where
  "rateLimiter_step f (Queue_AddRateLimited k) = f(k := Suc (f k))"
| "rateLimiter_step f (Queue_Forget k) = f(k := 0)"
| "rateLimiter_step f _ = f"

definition NumRequeues :: "(string \<Rightarrow> nat) \<Rightarrow> event list \<Rightarrow> string \<Rightarrow> nat" where
  "NumRequeues f evs = foldl rateLimiter_step f evs"

text \<open>Modelled from the spec: the in-flight discipline of the work queue (section 4.2: a
  key is being processed between \<open>Get\<close> and \<open>Done\<close>). \<open>in_flight_ok cur evs\<close> reads the
  events of one worker, \<open>cur\<close> being the key it holds: every \<open>Get\<close> comes when it holds
  none, every \<open>Done\<close> is for the key it holds, and it holds none at the end.\<close>

fun in_flight_ok :: "string option \<Rightarrow> event list \<Rightarrow> bool" where
  "in_flight_ok cur [] = (cur = None)"
| "in_flight_ok cur (Queue_Get k quit # evs) =
    (cur = None \<and> in_flight_ok (if quit then None else Some k) evs)"
| "in_flight_ok cur (Queue_Done k # evs) = (cur = Some k \<and> in_flight_ok None evs)"
| "in_flight_ok cur (_ # evs) = in_flight_ok cur evs"

subsection \<open>Kinds of events\<close>

text \<open>The calls of a reconciler step, and the calls on the work queue, among the events.\<close>

fun is_reconcile :: "event \<Rightarrow> bool" where
  "is_reconcile (Reconcile _) = True"
| "is_reconcile _ = False"

fun is_queue_event :: "event \<Rightarrow> bool" where
  "is_queue_event (Queue_Add _) = True"
| "is_queue_event (Queue_Get _ _) = True"
| "is_queue_event (Queue_Done _) = True"
| "is_queue_event (Queue_AddRateLimited _) = True"
| "is_queue_event (Queue_Forget _) = True"
| "is_queue_event _ = False"

subsection \<open>Example objects and environments\<close>

text \<open>Two SyncTargets of the logical cluster \<open>root\<close>: \<open>east\<close> names the export
  \<open>kubernetes\<close> of its own cluster, \<open>west\<close> names it by the path \<open>root:compute\<close>. In
  \<open>env_ok\<close> the export step finds one resource for \<open>east\<close>, whose observed status is
  empty, and every call succeeds; the other environments differ from it in one answer each.\<close>

definition east :: SyncTarget where
  "east = \<lparr>Meta = \<lparr>Name = ''east'', UID = ''uid-east'', ResourceVersion = ''7'',
                    Annotations = [''kcp.io/cluster'' \<mapsto> ''root'']\<rparr>,
           Spec = \<lparr>SupportedAPIExports = [\<lparr>Path = [], Export = ''kubernetes''\<rparr>]\<rparr>,
           Status = \<lparr>SyncedResources = []\<rparr>\<rparr>"

definition west :: SyncTarget where
  "west = \<lparr>Meta = \<lparr>Name = ''west'', UID = ''uid-west'', ResourceVersion = ''3'',
                    Annotations = [''kcp.io/cluster'' \<mapsto> ''root'']\<rparr>,
           Spec = \<lparr>SupportedAPIExports = [\<lparr>Path = ''root:compute'', Export = ''kubernetes''\<rparr>]\<rparr>,
           Status = \<lparr>SyncedResources = []\<rparr>\<rparr>"

definition deployments :: ResourceToSync where
  "deployments = \<lparr>Group = ''apps'', Version = ''v1'', Resource = ''deployments'',
                  IdentityHash = ''h1''\<rparr>"

definition kubernetes :: APIExport where
  "kubernetes = \<lparr>ExportMeta = \<lparr>Name = ''kubernetes'', UID = ''uid-k'', ResourceVersion = ''1'',
       Annotations = [''kcp.io/cluster'' \<mapsto> ''root'', ''kcp.io/path'' \<mapsto> ''root:compute'']\<rparr>\<rparr>"

definition render :: "SyncTarget \<Rightarrow> string" where
  "render t = UID (Meta t) @ ''/'' @ ResourceVersion (Meta t) @ ''/'' @
              concat (map Resource (SyncedResources (Status t)))"

definition env_ok :: env where
  "env_ok = \<lparr>
     MetaClusterNamespaceKeyFunc =
       (\<lambda>obj. case obj of SyncTarget_obj t \<Rightarrow> Inr (''root|'' @ Name (Meta t))
                        | _ \<Rightarrow> Inl (Err ''object has no meta'')),
     SplitMetaClusterNamespaceKey =
       (\<lambda>key. if key = ''root|east'' then Inr (''root'', [], ''east'')
               else if key = ''root|gone'' then Inr (''root'', [], ''gone'')
               else Inl (Err ''unexpected key format'')),
     logicalcluster_From = (\<lambda>m. annotation (Annotations m) ''kcp.io/cluster''),
     Path_Join = (\<lambda>p n. if p = [] then n else p @ '':'' @ n),
     IndexKeys =
       (\<lambda>idx v. if idx \<noteq> indexSyncTargetsByExport then Inl (Err ''Index does not exist'')
                 else if v = ''root:compute:kubernetes'' then Inr [''root|west'']
                 else if v = ''root:kubernetes'' then Inr [''root|east'']
                 else Inr []),
     GetByKey =
       (\<lambda>key. if key = ''root|east'' then Inr (SyncTarget_obj east)
               else if key = ''root|west'' then Inr (SyncTarget_obj west)
               else Inr Nil_obj),
     syncTargetLister_Get =
       (\<lambda>cluster name. if cluster = ''root'' \<and> name = ''east'' then Inr east
                       else Inl (NotFound name)),
     exportReconciler_reconcile =
       (\<lambda>t. (t\<lparr>Status := \<lparr>SyncedResources = [deployments]\<rparr>\<rparr>, None)),
     apiCompatibleReconciler_reconcile = (\<lambda>t. (t, None)),
     json_Marshal = (\<lambda>t. Inr (render t)),
     CreateMergePatch = (\<lambda>old new. Inr (old @ ''=>'' @ new)),
     Patch = (\<lambda>cluster name pt data subresources. None)\<rparr>"


definition env_step_error :: env where
  "env_step_error = env_ok\<lparr>exportReconciler_reconcile :=
     (\<lambda>t. (t\<lparr>Status := \<lparr>SyncedResources = [deployments]\<rparr>\<rparr>,
           Some (Aggregate [NotFound ''apiexport widgets''])))\<rparr>"

definition env_both_errors :: env where
  "env_both_errors = env_step_error\<lparr>apiCompatibleReconciler_reconcile :=
     (\<lambda>t. (t, Some (Err ''cannot list imports'')))\<rparr>"

definition env_lister_down :: env where
  "env_lister_down = env_ok\<lparr>syncTargetLister_Get :=
     (\<lambda>cluster name. Inl (Err ''informer cache is not synced''))\<rparr>"

definition east_synced :: SyncTarget where
  "east_synced = east\<lparr>Meta := (Meta east)\<lparr>ResourceVersion := ''8''\<rparr>,
                      Status := \<lparr>SyncedResources = [deployments]\<rparr>\<rparr>"

definition env_after_patch :: env where
  "env_after_patch = env_ok\<lparr>syncTargetLister_Get :=
     (\<lambda>cluster name. if cluster = ''root'' \<and> name = ''east'' then Inr east_synced
                     else Inl (NotFound name))\<rparr>"

definition env_marshal_fails :: env where
  "env_marshal_fails = env_ok\<lparr>json_Marshal := (\<lambda>t. Inl (Err ''json: unsupported value''))\<rparr>"

definition env_marshal_new_fails :: env where
  "env_marshal_new_fails = env_ok\<lparr>json_Marshal :=
     (\<lambda>t. if UID (Meta t) = [] then Inr (render t) else Inl (Err ''json: unsupported value''))\<rparr>"

definition env_merge_fails :: env where
  "env_merge_fails = env_ok\<lparr>CreateMergePatch := (\<lambda>old new. Inl (Err ''Invalid JSON Document''))\<rparr>"

definition env_compat_error :: env where
  "env_compat_error = env_ok\<lparr>apiCompatibleReconciler_reconcile :=
     (\<lambda>t. (t, Some (Err ''cannot list imports'')))\<rparr>"

section \<open>Properties\<close>

lemma process_split_failed:
  "SplitMetaClusterNamespaceKey c key = Inl err \<Longrightarrow> process c key = (None, [HandleError err])"
  by (simp add: process_def)

lemma process_get_failed:
  "SplitMetaClusterNamespaceKey c key = Inr (cluster, ns, name) \<Longrightarrow>
   syncTargetLister_Get c cluster name = Inl err \<Longrightarrow>
   process c key =
     (None, [Klog Klog_Errorf ''Failed to get syncTarget with key %q because: %v'' [key] (Some err)])"
  by (simp add: process_def)

lemma process_fetched:
  assumes "SplitMetaClusterNamespaceKey c key = Inr (cluster, ns, name)"
    and "syncTargetLister_Get c cluster name = Inr st"
    and "exportReconciler_reconcile c st = (cur1, err1)"
    and "apiCompatibleReconciler_reconcile c cur1 = (cur2, err2)"
  shows "process c key =
     (if append_err (append_err [] err1) err2 \<noteq> []
      then (Some (Aggregate (append_err (append_err [] err1) err2)),
            [Klog Klog_Infof ''Processing syncTarget %q'' [key] None,
             Reconcile Export_step, Reconcile APICompatible_step])
      else (fst (persist c key st cur2),
            [Klog Klog_Infof ''Processing syncTarget %q'' [key] None,
             Reconcile Export_step, Reconcile APICompatible_step] @ snd (persist c key st cur2)))"
  using assms by (simp add: process_def NewAggregate_def split: prod.splits)

lemma append_err_empty: "append_err (append_err [] err1) err2 = [] \<longleftrightarrow> err1 = None \<and> err2 = None"
  by (simp add: append_err_def split: option.splits)

lemma persist_equal:
  "SyncedResources (Status st) = SyncedResources (Status cur) \<Longrightarrow> persist c key st cur = (None, [])"
  by (simp add: persist_def)

lemma persist_no_queue_events: "filter is_queue_event (snd (persist c key st cur)) = []"
  by (simp add: persist_def Let_def split: sum.splits option.splits)

lemma persist_no_reconcile: "filter is_reconcile (snd (persist c key st cur)) = []"
  by (simp add: persist_def Let_def split: sum.splits option.splits)

lemma process_no_queue_events: "filter is_queue_event (snd (process c key)) = []"
proof (cases "SplitMetaClusterNamespaceKey c key")
  case (Inl err)
  then show ?thesis by (simp add: process_split_failed)
next
  case (Inr triple)
  obtain cluster ns name where t: "triple = (cluster, ns, name)" by (cases triple)
  show ?thesis
  proof (cases "syncTargetLister_Get c cluster name")
    case (Inl err)
    with Inr t show ?thesis by (simp add: process_get_failed)
  next
    case st: (Inr st)
    obtain cur1 err1 where s1: "exportReconciler_reconcile c st = (cur1, err1)"
      by (cases "exportReconciler_reconcile c st")
    obtain cur2 err2 where s2: "apiCompatibleReconciler_reconcile c cur1 = (cur2, err2)"
      by (cases "apiCompatibleReconciler_reconcile c cur1")
    from Inr t st s1 s2 show ?thesis
      by (simp add: process_fetched persist_no_queue_events)
  qed
qed

lemma rateLimiter_other_events:
  "filter is_queue_event evs = [] \<Longrightarrow> foldl rateLimiter_step f evs = f"
proof (induction evs arbitrary: f)
  case Nil
  show ?case by simp
next
  case (Cons e evs)
  then show ?case by (cases e) (simp_all split: if_splits)
qed

lemma in_flight_other_events:
  "filter is_queue_event evs = [] \<Longrightarrow> in_flight_ok cur (evs @ rest) = in_flight_ok cur rest"
proof (induction evs)
  case Nil
  show ?case by simp
next
  case (Cons e evs)
  then show ?case by (cases e) (simp_all split: if_splits)
qed

lemma no_done_among_other_events:
  "filter is_queue_event evs = [] \<Longrightarrow> count_list evs (Queue_Done k) = 0"
proof (induction evs)
  case Nil
  show ?case by simp
next
  case (Cons e evs)
  then show ?case by (cases e) (simp_all split: if_splits)
qed

lemma processNextWorkItem_error:
  "fst (process c key) = Some err \<Longrightarrow>
   processNextWorkItem c (key, False) =
     (True, Queue_Get key False # snd (process c key) @
            [HandleError (Errorf ''failed to sync %q: %w'' key (Some err)),
             Queue_AddRateLimited key, Queue_Done key])"
  by (cases "process c key") (simp add: processNextWorkItem_def)

lemma processNextWorkItem_success:
  "fst (process c key) = None \<Longrightarrow>
   processNextWorkItem c (key, False) =
     (True, Queue_Get key False # snd (process c key) @ [Queue_Forget key, Queue_Done key])"
  by (cases "process c key") (simp add: processNextWorkItem_def)

subsection \<open>The primary object is gone\<close>

text \<open>Claim C7. When the key splits and the lister answers not-found for the SyncTarget,
  \<open>process\<close> writes one error line to the log and returns nil: no step runs and no patch is
  sent. The worker then calls \<open>Forget\<close> and \<open>Done\<close> for the key and does not add it again.\<close>

theorem process_not_found_is_success:
  assumes "SplitMetaClusterNamespaceKey c key = Inr (cluster, ns, name)"
    and "syncTargetLister_Get c cluster name = Inl (NotFound msg)"
  shows "process c key =
           (None, [Klog Klog_Errorf ''Failed to get syncTarget with key %q because: %v'' [key]
                     (Some (NotFound msg))])
       \<and> processNextWorkItem c (key, False) =
           (True, [Queue_Get key False,
                   Klog Klog_Errorf ''Failed to get syncTarget with key %q because: %v'' [key]
                     (Some (NotFound msg)),
                   Queue_Forget key, Queue_Done key])"
proof -
  have p: "process c key =
           (None, [Klog Klog_Errorf ''Failed to get syncTarget with key %q because: %v'' [key]
                     (Some (NotFound msg))])"
    using assms by (rule process_get_failed)
  then show ?thesis by (simp add: processNextWorkItem_success)
qed

theorem process_not_found_is_success_witness:
  "SplitMetaClusterNamespaceKey env_ok ''root|gone'' = Inr (''root'', [], ''gone'')
   \<and> syncTargetLister_Get env_ok ''root'' ''gone'' = Inl (NotFound ''gone'')
   \<and> process env_ok ''root|gone'' =
       (None, [Klog Klog_Errorf ''Failed to get syncTarget with key %q because: %v''
                 [''root|gone''] (Some (NotFound ''gone''))])
   \<and> processNextWorkItem env_ok (''root|gone'', False) =
       (True, [Queue_Get ''root|gone'' False,
               Klog Klog_Errorf ''Failed to get syncTarget with key %q because: %v''
                 [''root|gone''] (Some (NotFound ''gone'')),
               Queue_Forget ''root|gone'', Queue_Done ''root|gone''])"
proof -
  have h1: "SplitMetaClusterNamespaceKey env_ok ''root|gone'' = Inr (''root'', [], ''gone'')"
    by (simp add: env_ok_def)
  have h2: "syncTargetLister_Get env_ok ''root'' ''gone'' = Inl (NotFound ''gone'')"
    by (simp add: env_ok_def)
  show ?thesis using h1 h2 process_not_found_is_success [OF h1 h2] by simp
qed

subsection \<open>Every failed fetch counts as success\<close>

text \<open>Claim C9. A key that does not split, and any error of the lister (not only
  not-found), make \<open>process\<close> return nil after one report (to the error sink for the key,
  to the log for the lister). The worker therefore calls \<open>Forget\<close> and then \<open>Done\<close>, and
  never \<open>AddRateLimited\<close>.\<close>

theorem process_fetch_failures_are_success:
  "(\<forall>err. SplitMetaClusterNamespaceKey c key = Inl err \<longrightarrow>
      process c key = (None, [HandleError err]) \<and>
      processNextWorkItem c (key, False) =
        (True, [Queue_Get key False, HandleError err, Queue_Forget key, Queue_Done key]))
   \<and> (\<forall>cluster ns name err.
        SplitMetaClusterNamespaceKey c key = Inr (cluster, ns, name) \<longrightarrow>
        syncTargetLister_Get c cluster name = Inl err \<longrightarrow>
        process c key =
          (None, [Klog Klog_Errorf ''Failed to get syncTarget with key %q because: %v'' [key]
                    (Some err)]) \<and>
        processNextWorkItem c (key, False) =
          (True, [Queue_Get key False,
                  Klog Klog_Errorf ''Failed to get syncTarget with key %q because: %v'' [key]
                    (Some err),
                  Queue_Forget key, Queue_Done key]))"
  by (simp add: process_split_failed process_get_failed processNextWorkItem_success)

theorem process_fetch_failures_are_success_witness:
  "SplitMetaClusterNamespaceKey env_lister_down ''root/east/x'' = Inl (Err ''unexpected key format'')
   \<and> processNextWorkItem env_lister_down (''root/east/x'', False) =
        (True, [Queue_Get ''root/east/x'' False, HandleError (Err ''unexpected key format''),
                Queue_Forget ''root/east/x'', Queue_Done ''root/east/x''])
   \<and> SplitMetaClusterNamespaceKey env_lister_down ''root|east'' = Inr (''root'', [], ''east'')
   \<and> syncTargetLister_Get env_lister_down ''root'' ''east'' = Inl (Err ''informer cache is not synced'')
   \<and> process env_lister_down ''root|east'' =
        (None, [Klog Klog_Errorf ''Failed to get syncTarget with key %q because: %v''
                  [''root|east''] (Some (Err ''informer cache is not synced''))])
   \<and> processNextWorkItem env_lister_down (''root|east'', False) =
        (True, [Queue_Get ''root|east'' False,
                Klog Klog_Errorf ''Failed to get syncTarget with key %q because: %v''
                  [''root|east''] (Some (Err ''informer cache is not synced'')),
                Queue_Forget ''root|east'', Queue_Done ''root|east''])"
proof -
  have h1: "SplitMetaClusterNamespaceKey env_lister_down ''root/east/x'' = Inl (Err ''unexpected key format'')"
    by (simp add: env_lister_down_def env_ok_def)
  have h2: "SplitMetaClusterNamespaceKey env_lister_down ''root|east'' = Inr (''root'', [], ''east'')"
    by (simp add: env_lister_down_def env_ok_def)
  have h3: "syncTargetLister_Get env_lister_down ''root'' ''east'' = Inl (Err ''informer cache is not synced'')"
    by (simp add: env_lister_down_def)
  show ?thesis
    using h1 h2 h3
      process_fetch_failures_are_success [of env_lister_down "''root/east/x''"]
      process_fetch_failures_are_success [of env_lister_down "''root|east''"]
    by simp
qed

subsection \<open>Retry and backoff\<close>

text \<open>Claim C8. For a dequeued key, an error of \<open>process\<close> is reported to the error sink,
  the key is added again with \<open>AddRateLimited\<close> and the worker goes on (the result is
  \<open>True\<close>); when \<open>process\<close> returns nil the worker calls \<open>Forget\<close>. So one failed pass
  raises the key's count of rate-limited re-adds by one, and a failed pass followed by a
  successful one leaves it at 0, whatever it was before.\<close>

theorem processNextWorkItem_retry_and_forget:
  "(\<forall>err. fst (process c key) = Some err \<longrightarrow>
      processNextWorkItem c (key, False) =
        (True, Queue_Get key False # snd (process c key) @
               [HandleError (Errorf ''failed to sync %q: %w'' key (Some err)),
                Queue_AddRateLimited key, Queue_Done key]) \<and>
      NumRequeues f (snd (processNextWorkItem c (key, False))) key = Suc (f key))
   \<and> (fst (process c key) = None \<longrightarrow>
      processNextWorkItem c (key, False) =
        (True, Queue_Get key False # snd (process c key) @ [Queue_Forget key, Queue_Done key]))
   \<and> (\<forall>c'. fst (process c key) \<noteq> None \<longrightarrow> fst (process c' key) = None \<longrightarrow>
      NumRequeues f (snd (processNextWorkItem c (key, False)) @
                     snd (processNextWorkItem c' (key, False))) key = 0)"
proof (intro conjI allI impI)
  fix err
  assume e: "fst (process c key) = Some err"
  then show "processNextWorkItem c (key, False) =
        (True, Queue_Get key False # snd (process c key) @
               [HandleError (Errorf ''failed to sync %q: %w'' key (Some err)),
                Queue_AddRateLimited key, Queue_Done key])"
    by (rule processNextWorkItem_error)
  then show "NumRequeues f (snd (processNextWorkItem c (key, False))) key = Suc (f key)"
    by (simp add: NumRequeues_def rateLimiter_other_events process_no_queue_events)
next
  assume "fst (process c key) = None"
  then show "processNextWorkItem c (key, False) =
        (True, Queue_Get key False # snd (process c key) @ [Queue_Forget key, Queue_Done key])"
    by (rule processNextWorkItem_success)
next
  fix c'
  assume "fst (process c' key) = None"
  then have "processNextWorkItem c' (key, False) =
        (True, Queue_Get key False # snd (process c' key) @ [Queue_Forget key, Queue_Done key])"
    by (rule processNextWorkItem_success)
  then show "NumRequeues f (snd (processNextWorkItem c (key, False)) @
                     snd (processNextWorkItem c' (key, False))) key = 0"
    by (simp add: NumRequeues_def)
qed

theorem processNextWorkItem_retry_and_forget_witness:
  "fst (process env_step_error ''root|east'') = Some (Aggregate [Aggregate [NotFound ''apiexport widgets'']])
   \<and> fst (process env_ok ''root|east'') = None
   \<and> processNextWorkItem env_step_error (''root|east'', False) =
        (True, Queue_Get ''root|east'' False # snd (process env_step_error ''root|east'') @
               [HandleError (Errorf ''failed to sync %q: %w'' ''root|east''
                  (Some (Aggregate [Aggregate [NotFound ''apiexport widgets'']]))),
                Queue_AddRateLimited ''root|east'', Queue_Done ''root|east''])
   \<and> NumRequeues (\<lambda>k. 4) (snd (processNextWorkItem env_step_error (''root|east'', False)))
        ''root|east'' = 5
   \<and> processNextWorkItem env_ok (''root|east'', False) =
        (True, Queue_Get ''root|east'' False # snd (process env_ok ''root|east'') @
               [Queue_Forget ''root|east'', Queue_Done ''root|east''])
   \<and> NumRequeues (\<lambda>k. 4) (snd (processNextWorkItem env_step_error (''root|east'', False)) @
                             snd (processNextWorkItem env_ok (''root|east'', False)))
        ''root|east'' = 0"
proof -
  have h1: "fst (process env_step_error ''root|east'') =
              Some (Aggregate [Aggregate [NotFound ''apiexport widgets'']])"
    by (simp add: process_def env_step_error_def env_ok_def append_err_def NewAggregate_def)
  have h2: "fst (process env_ok ''root|east'') = None"
    by (simp add: process_def persist_def env_ok_def append_err_def east_def Let_def)
  note fails = processNextWorkItem_retry_and_forget [of env_step_error "''root|east''" "\<lambda>k. 4"]
  note succeeds = processNextWorkItem_retry_and_forget [of env_ok "''root|east''" "\<lambda>k. 4"]
  from fails h1 have a:
    "processNextWorkItem env_step_error (''root|east'', False) =
        (True, Queue_Get ''root|east'' False # snd (process env_step_error ''root|east'') @
               [HandleError (Errorf ''failed to sync %q: %w'' ''root|east''
                  (Some (Aggregate [Aggregate [NotFound ''apiexport widgets'']]))),
                Queue_AddRateLimited ''root|east'', Queue_Done ''root|east''])
     \<and> NumRequeues (\<lambda>k. 4) (snd (processNextWorkItem env_step_error (''root|east'', False)))
        ''root|east'' = Suc 4"
    by blast
  from fails h1 h2 have b:
    "NumRequeues (\<lambda>k. 4) (snd (processNextWorkItem env_step_error (''root|east'', False)) @
                             snd (processNextWorkItem env_ok (''root|east'', False)))
        ''root|east'' = 0"
    by (metis option.distinct(1))
  from succeeds h2 have c:
    "processNextWorkItem env_ok (''root|east'', False) =
        (True, Queue_Get ''root|east'' False # snd (process env_ok ''root|east'') @
               [Queue_Forget ''root|east'', Queue_Done ''root|east''])"
    by blast
  have five: "Suc 4 = (5::nat)" by simp
  from a five have a5:
    "NumRequeues (\<lambda>k. 4) (snd (processNextWorkItem env_step_error (''root|east'', False)))
        ''root|east'' = 5"
    by metis
  from h1 h2 a a5 b c show ?thesis by blast
qed

subsection \<open>Done after every Get\<close>

text \<open>Claim C10. For an item that \<open>queue.Get\<close> hands out, \<open>processNextWorkItem\<close> calls
  \<open>Done\<close> for that key exactly once, as its last call, whether \<open>process\<close> failed or not, and
  returns \<open>True\<close>. Over the whole worker loop, every \<open>Get\<close> comes when the worker holds no
  key, every \<open>Done\<close> is for the key it holds, and no key is held at the end.\<close>

theorem processNextWorkItem_done_once:
  "fst (processNextWorkItem c (key, False)) = True
   \<and> count_list (snd (processNextWorkItem c (key, False))) (Queue_Done key) = 1
   \<and> last (snd (processNextWorkItem c (key, False))) = Queue_Done key
   \<and> in_flight_ok None (startWorker script)"
proof -
  have one: "fst (processNextWorkItem c (key, False)) = True
     \<and> count_list (snd (processNextWorkItem c (key, False))) (Queue_Done key) = 1
     \<and> last (snd (processNextWorkItem c (key, False))) = Queue_Done key"
  proof (cases "fst (process c key)")
    case None
    then show ?thesis
      by (simp add: processNextWorkItem_success no_done_among_other_events
            process_no_queue_events)
  next
    case (Some err)
    then show ?thesis
      by (simp add: processNextWorkItem_error no_done_among_other_events
            process_no_queue_events)
  qed
  have loop: "in_flight_ok None (startWorker script)"
  proof (induction script)
    case Nil
    show ?case by simp
  next
    case (Cons entry rest)
    obtain c' k quit where entry: "entry = (c', k, quit)" by (cases entry)
    show ?case
    proof (cases quit)
      case True
      with entry show ?thesis by (simp add: processNextWorkItem_def)
    next
      case False
      show ?thesis
      proof (cases "fst (process c' k)")
        case None
        with entry False Cons.IH show ?thesis
          by (simp add: processNextWorkItem_success in_flight_other_events
                process_no_queue_events)
      next
        case (Some err)
        with entry False Cons.IH show ?thesis
          by (simp add: processNextWorkItem_error in_flight_other_events
                process_no_queue_events)
      qed
    qed
  qed
  from one loop show ?thesis by simp
qed

theorem processNextWorkItem_done_once_witness:
  "fst (processNextWorkItem env_step_error (''root|east'', False)) = True
   \<and> count_list (snd (processNextWorkItem env_step_error (''root|east'', False)))
        (Queue_Done ''root|east'') = 1
   \<and> last (snd (processNextWorkItem env_step_error (''root|east'', False))) = Queue_Done ''root|east''
   \<and> in_flight_ok None
        (startWorker [(env_step_error, ''root|east'', False), (env_ok, ''root|east'', False),
                      (env_ok, [], True)])"
  using processNextWorkItem_done_once [of env_step_error "''root|east''"
          "[(env_step_error, ''root|east'', False), (env_ok, ''root|east'', False),
            (env_ok, [], True)]"]
  by simp

subsection \<open>The two reconciler steps\<close>

text \<open>Claim C5. Once the SyncTarget is fetched, the export step and then the compatibility
  step are called, each exactly once and in this order, whatever the first one returns; the
  second works on the copy the first returned. When at least one of them returns an error,
  \<open>process\<close> returns the aggregate of the errors collected, the first step's before the
  second's.\<close>

theorem process_runs_both_steps:
  assumes "SplitMetaClusterNamespaceKey c key = Inr (cluster, ns, name)"
    and "syncTargetLister_Get c cluster name = Inr st"
    and "exportReconciler_reconcile c st = (cur1, err1)"
    and "apiCompatibleReconciler_reconcile c cur1 = (cur2, err2)"
  shows "filter is_reconcile (snd (process c key)) =
           [Reconcile Export_step, Reconcile APICompatible_step]
       \<and> (err1 \<noteq> None \<or> err2 \<noteq> None \<longrightarrow>
            fst (process c key) =
              Some (Aggregate ((case err1 of None \<Rightarrow> [] | Some e \<Rightarrow> [e]) @
                               (case err2 of None \<Rightarrow> [] | Some e \<Rightarrow> [e]))))"
proof -
  have errs: "append_err (append_err [] err1) err2 =
                (case err1 of None \<Rightarrow> [] | Some e \<Rightarrow> [e]) @
                (case err2 of None \<Rightarrow> [] | Some e \<Rightarrow> [e])"
    by (simp add: append_err_def split: option.splits)
  have steps: "filter is_reconcile (snd (process c key)) =
           [Reconcile Export_step, Reconcile APICompatible_step]"
    by (simp add: process_fetched [OF assms] persist_no_reconcile)
  have agg: "fst (process c key) =
              Some (Aggregate ((case err1 of None \<Rightarrow> [] | Some e \<Rightarrow> [e]) @
                               (case err2 of None \<Rightarrow> [] | Some e \<Rightarrow> [e])))"
    if "err1 \<noteq> None \<or> err2 \<noteq> None"
  proof -
    from that have "append_err (append_err [] err1) err2 \<noteq> []"
      by (simp add: append_err_empty)
    then show ?thesis
      by (simp add: process_fetched [OF assms] errs [symmetric])
  qed
  from steps agg show ?thesis by blast
qed

theorem process_runs_both_steps_witness:
  "SplitMetaClusterNamespaceKey env_both_errors ''root|east'' = Inr (''root'', [], ''east'')
   \<and> syncTargetLister_Get env_both_errors ''root'' ''east'' = Inr east
   \<and> exportReconciler_reconcile env_both_errors east =
        (east\<lparr>Status := \<lparr>SyncedResources = [deployments]\<rparr>\<rparr>,
         Some (Aggregate [NotFound ''apiexport widgets'']))
   \<and> apiCompatibleReconciler_reconcile env_both_errors
        (east\<lparr>Status := \<lparr>SyncedResources = [deployments]\<rparr>\<rparr>) =
        (east\<lparr>Status := \<lparr>SyncedResources = [deployments]\<rparr>\<rparr>, Some (Err ''cannot list imports''))
   \<and> filter is_reconcile (snd (process env_both_errors ''root|east'')) =
        [Reconcile Export_step, Reconcile APICompatible_step]
   \<and> fst (process env_both_errors ''root|east'') =
        Some (Aggregate [Aggregate [NotFound ''apiexport widgets''], Err ''cannot list imports''])"
proof -
  have h1: "SplitMetaClusterNamespaceKey env_both_errors ''root|east'' = Inr (''root'', [], ''east'')"
    by (simp add: env_both_errors_def env_step_error_def env_ok_def)
  have h2: "syncTargetLister_Get env_both_errors ''root'' ''east'' = Inr east"
    by (simp add: env_both_errors_def env_step_error_def env_ok_def)
  have h3: "exportReconciler_reconcile env_both_errors east =
        (east\<lparr>Status := \<lparr>SyncedResources = [deployments]\<rparr>\<rparr>,
         Some (Aggregate [NotFound ''apiexport widgets'']))"
    by (simp add: env_both_errors_def env_step_error_def)
  have h4: "apiCompatibleReconciler_reconcile env_both_errors
        (east\<lparr>Status := \<lparr>SyncedResources = [deployments]\<rparr>\<rparr>) =
        (east\<lparr>Status := \<lparr>SyncedResources = [deployments]\<rparr>\<rparr>, Some (Err ''cannot list imports''))"
    by (simp add: env_both_errors_def)
  from process_runs_both_steps [OF h1 h2 h3 h4]
  have "filter is_reconcile (snd (process env_both_errors ''root|east'')) =
        [Reconcile Export_step, Reconcile APICompatible_step]
   \<and> fst (process env_both_errors ''root|east'') =
        Some (Aggregate [Aggregate [NotFound ''apiexport widgets''], Err ''cannot list imports''])"
    by simp
  with h1 h2 h3 h4 show ?thesis by blast
qed

subsection \<open>A failed step ends the pass before the status is compared\<close>

text \<open>Claim C1, as the code has it. When at least one step returns an error, \<open>process\<close>
  returns the aggregate of the errors straight after the second step: the observed and the
  reconciled status are not compared, nothing is marshalled and no patch is sent, so what
  the steps wrote into the working copy is dropped.\<close>

theorem process_step_error_skips_persist:
  assumes "SplitMetaClusterNamespaceKey c key = Inr (cluster, ns, name)"
    and "syncTargetLister_Get c cluster name = Inr st"
    and "exportReconciler_reconcile c st = (cur1, err1)"
    and "apiCompatibleReconciler_reconcile c cur1 = (cur2, err2)"
    and "err1 \<noteq> None \<or> err2 \<noteq> None"
  shows "process c key =
           (Some (Aggregate (append_err (append_err [] err1) err2)),
            [Klog Klog_Infof ''Processing syncTarget %q'' [key] None,
             Reconcile Export_step, Reconcile APICompatible_step])
       \<and> patch_calls (snd (process c key)) = []"
proof -
  from assms(5) have "append_err (append_err [] err1) err2 \<noteq> []"
    by (simp add: append_err_empty)
  then have "process c key =
           (Some (Aggregate (append_err (append_err [] err1) err2)),
            [Klog Klog_Infof ''Processing syncTarget %q'' [key] None,
             Reconcile Export_step, Reconcile APICompatible_step])"
    by (simp add: process_fetched [OF assms(1-4)])
  then show ?thesis by (simp add: patch_calls_def)
qed

theorem process_step_error_skips_persist_witness:
  "SplitMetaClusterNamespaceKey env_step_error ''root|east'' = Inr (''root'', [], ''east'')
   \<and> syncTargetLister_Get env_step_error ''root'' ''east'' = Inr east
   \<and> exportReconciler_reconcile env_step_error east =
        (east\<lparr>Status := \<lparr>SyncedResources = [deployments]\<rparr>\<rparr>,
         Some (Aggregate [NotFound ''apiexport widgets'']))
   \<and> apiCompatibleReconciler_reconcile env_step_error
        (east\<lparr>Status := \<lparr>SyncedResources = [deployments]\<rparr>\<rparr>) =
        (east\<lparr>Status := \<lparr>SyncedResources = [deployments]\<rparr>\<rparr>, None)
   \<and> process env_step_error ''root|east'' =
        (Some (Aggregate [Aggregate [NotFound ''apiexport widgets'']]),
         [Klog Klog_Infof ''Processing syncTarget %q'' [''root|east''] None,
          Reconcile Export_step, Reconcile APICompatible_step])
   \<and> patch_calls (snd (process env_step_error ''root|east'')) = []"
proof -
  have h1: "SplitMetaClusterNamespaceKey env_step_error ''root|east'' = Inr (''root'', [], ''east'')"
    by (simp add: env_step_error_def env_ok_def)
  have h2: "syncTargetLister_Get env_step_error ''root'' ''east'' = Inr east"
    by (simp add: env_step_error_def env_ok_def)
  have h3: "exportReconciler_reconcile env_step_error east =
        (east\<lparr>Status := \<lparr>SyncedResources = [deployments]\<rparr>\<rparr>,
         Some (Aggregate [NotFound ''apiexport widgets'']))"
    by (simp add: env_step_error_def)
  have h4: "apiCompatibleReconciler_reconcile env_step_error
        (east\<lparr>Status := \<lparr>SyncedResources = [deployments]\<rparr>\<rparr>) =
        (east\<lparr>Status := \<lparr>SyncedResources = [deployments]\<rparr>\<rparr>, None)"
    by (simp add: env_step_error_def env_ok_def)
  have h5: "Some (Aggregate [NotFound ''apiexport widgets'']) \<noteq> None \<or> (None :: error option) \<noteq> None"
    by simp
  from process_step_error_skips_persist [OF h1 h2 h3 h4 h5]
  have "process env_step_error ''root|east'' =
        (Some (Aggregate [Aggregate [NotFound ''apiexport widgets'']]),
         [Klog Klog_Infof ''Processing syncTarget %q'' [''root|east''] None,
          Reconcile Export_step, Reconcile APICompatible_step])
   \<and> patch_calls (snd (process env_step_error ''root|east'')) = []"
    by (simp add: append_err_def patch_calls_def)
  with h1 h2 h3 h4 show ?thesis by blast
qed

text \<open>Claim C1, as the spec has it, fails: in \<open>env_step_error\<close> the export step writes one
  resource into the status of \<open>east\<close> (whose observed status is empty) and returns an error.
  The reconciled status differs from the observed one, and yet the pass sends no patch.\<close>

theorem process_step_error_counterexample:
  "fst (exportReconciler_reconcile env_step_error east) =
     east\<lparr>Status := \<lparr>SyncedResources = [deployments]\<rparr>\<rparr>
   \<and> snd (exportReconciler_reconcile env_step_error east) \<noteq> None
   \<and> SyncedResources (Status (fst (apiCompatibleReconciler_reconcile env_step_error
        (fst (exportReconciler_reconcile env_step_error east))))) \<noteq> SyncedResources (Status east)
   \<and> fst (process env_step_error ''root|east'') \<noteq> None
   \<and> patch_calls (snd (process env_step_error ''root|east'')) = []"
  by (simp add: process_def env_step_error_def env_ok_def append_err_def NewAggregate_def
        patch_calls_def east_def)

subsection \<open>SyncTarget events\<close>

lemma added_keys_append: "added_keys (xs @ ys) = added_keys xs @ added_keys ys"
  by (simp add: added_keys_def)

lemma added_keys_Nil: "added_keys [] = []"
  by (simp add: added_keys_def)

lemma added_keys_enqueueSyncTarget:
  "MetaClusterNamespaceKeyFunc c obj = Inr key \<Longrightarrow>
   added_keys (enqueueSyncTarget c obj logSuffix) = [key]"
  by (simp add: enqueueSyncTarget_def added_keys_def)

text \<open>Claim C2, as the code has it. For a SyncTarget whose key the key function gives: the
  add handler hands that key to \<open>queue.Add\<close>; the update handler does so when
  \<open>SupportedAPIExports\<close> or \<open>SyncedResources\<close> of the old and the new object differ, and
  adds nothing when both are equal; the delete handler does nothing at all.\<close>

theorem syncTarget_handlers_enqueue:
  assumes "MetaClusterNamespaceKeyFunc c (SyncTarget_obj new) = Inr key"
  shows "added_keys (syncTarget_AddFunc c (SyncTarget_obj new)) = [key]
       \<and> map_option added_keys (syncTarget_UpdateFunc c (SyncTarget_obj old) (SyncTarget_obj new)) =
           Some (if SupportedAPIExports (Spec old) \<noteq> SupportedAPIExports (Spec new) \<or>
                    SyncedResources (Status old) \<noteq> SyncedResources (Status new)
                 then [key] else [])
       \<and> syncTarget_DeleteFunc c (SyncTarget_obj new) = []"
  using assms
  by (simp add: syncTarget_AddFunc_def syncTarget_UpdateFunc_def syncTarget_DeleteFunc_def
        added_keys_enqueueSyncTarget added_keys_Nil)

theorem syncTarget_handlers_enqueue_witness:
  "MetaClusterNamespaceKeyFunc env_ok (SyncTarget_obj (east\<lparr>Status := \<lparr>SyncedResources = [deployments]\<rparr>\<rparr>))
     = Inr ''root|east''
   \<and> added_keys (syncTarget_AddFunc env_ok
        (SyncTarget_obj (east\<lparr>Status := \<lparr>SyncedResources = [deployments]\<rparr>\<rparr>))) = [''root|east'']
   \<and> map_option added_keys (syncTarget_UpdateFunc env_ok (SyncTarget_obj east)
        (SyncTarget_obj (east\<lparr>Status := \<lparr>SyncedResources = [deployments]\<rparr>\<rparr>))) = Some [''root|east'']
   \<and> map_option added_keys (syncTarget_UpdateFunc env_ok
        (SyncTarget_obj (east\<lparr>Status := \<lparr>SyncedResources = [deployments]\<rparr>\<rparr>))
        (SyncTarget_obj (east\<lparr>Status := \<lparr>SyncedResources = [deployments]\<rparr>\<rparr>))) = Some []
   \<and> syncTarget_DeleteFunc env_ok
        (SyncTarget_obj (east\<lparr>Status := \<lparr>SyncedResources = [deployments]\<rparr>\<rparr>)) = []"
proof -
  have h: "MetaClusterNamespaceKeyFunc env_ok
             (SyncTarget_obj (east\<lparr>Status := \<lparr>SyncedResources = [deployments]\<rparr>\<rparr>)) = Inr ''root|east''"
    by (simp add: env_ok_def east_def)
  have changed: "SyncedResources (Status east) \<noteq> [deployments]"
    by (simp add: east_def)
  show ?thesis
    using h changed
      syncTarget_handlers_enqueue [OF h, of east]
      syncTarget_handlers_enqueue [OF h, of "east\<lparr>Status := \<lparr>SyncedResources = [deployments]\<rparr>\<rparr>"]
    by simp
qed

text \<open>Claim C2, as the spec has it, fails on delete: the delete handler of the SyncTarget
  informer has an empty body, so the key of the deleted object (here \<open>root|east\<close>) is not
  handed to the queue.\<close>

theorem syncTarget_delete_counterexample:
  "MetaClusterNamespaceKeyFunc env_ok (SyncTarget_obj east) = Inr ''root|east''
   \<and> added_keys (syncTarget_AddFunc env_ok (SyncTarget_obj east)) = [''root|east'']
   \<and> ''root|east'' \<notin> set (added_keys (syncTarget_DeleteFunc env_ok (SyncTarget_obj east)))"
  by (simp add: env_ok_def east_def syncTarget_AddFunc_def syncTarget_DeleteFunc_def
        enqueueSyncTarget_def added_keys_def)

subsection \<open>APIExport events\<close>

lemma added_keys_enqueueKeys:
  "\<forall>k\<in>set keys. \<exists>t. GetByKey c k = Inr t \<and> MetaClusterNamespaceKeyFunc c t = Inr k \<Longrightarrow>
   added_keys (enqueueKeys c logSuffix keys) = keys"
proof (induction keys)
  case Nil
  show ?case by (simp add: added_keys_Nil)
next
  case (Cons key keys)
  then obtain t where t: "GetByKey c key = Inr t" "MetaClusterNamespaceKeyFunc c t = Inr key"
    by auto
  from Cons have "added_keys (enqueueKeys c logSuffix keys) = keys" by simp
  with t show ?case
    by (simp add: added_keys_append added_keys_enqueueSyncTarget)
qed

lemma set_sets_List: "set (sets_List keys) = set keys"
  by (simp add: sets_List_def)

text \<open>Claim C4. For an APIExport event (the export itself or, on delete, a
  \<open>DeletedFinalStateUnknown\<close> that wraps it), the by-export index is read under the export's
  path alias when the \<open>kcp.io/path\<close> annotation is not empty, and under its cluster name in
  every case. When both reads succeed and every key found is in the store under that key,
  the keys handed to \<open>queue.Add\<close> are the members of the union of the two results, each
  once, in sorted order: no SyncTarget found by either form is left out.\<close>

theorem enqueueAPIExport_unions_both_lookups:
  assumes "obj = APIExport_obj export \<or> obj = DeletedFinalStateUnknown dkey (APIExport_obj export)"
    and "path = annotation (Annotations (ExportMeta export)) LogicalClusterPathAnnotationKey"
    and "path \<noteq> [] \<longrightarrow>
           IndexKeys c indexSyncTargetsByExport (Path_Join c path (Name (ExportMeta export))) =
             Inr pathKeys"
    and "path = [] \<longrightarrow> pathKeys = []"
    and "IndexKeys c indexSyncTargetsByExport
           (Path_Join c (logicalcluster_From c (ExportMeta export)) (Name (ExportMeta export))) =
             Inr clusterKeys"
    and "\<forall>k \<in> set pathKeys \<union> set clusterKeys.
           \<exists>t. GetByKey c k = Inr t \<and> MetaClusterNamespaceKeyFunc c t = Inr k"
  shows "added_keys (enqueueAPIExport c obj logSuffix) = sets_List (pathKeys @ clusterKeys)
       \<and> set (added_keys (enqueueAPIExport c obj logSuffix)) = set pathKeys \<union> set clusterKeys"
proof -
  have stored: "\<forall>k\<in>set (sets_List (pathKeys @ clusterKeys)).
                  \<exists>t. GetByKey c k = Inr t \<and> MetaClusterNamespaceKeyFunc c t = Inr k"
    using assms(6) by (simp add: set_sets_List)
  have run: "enqueueAPIExport c obj logSuffix =
               enqueueKeys c logSuffix (sets_List (pathKeys @ clusterKeys))"
  proof (cases "path = []")
    case True
    with assms(1-5) show ?thesis
      by (auto simp: enqueueAPIExport_def Let_def)
  next
    case False
    with assms(1-5) show ?thesis
      by (auto simp: enqueueAPIExport_def Let_def)
  qed
  have "added_keys (enqueueAPIExport c obj logSuffix) = sets_List (pathKeys @ clusterKeys)"
    using run added_keys_enqueueKeys [OF stored] by simp
  then show ?thesis by (simp add: set_sets_List)
qed

theorem enqueueAPIExport_unions_both_lookups_witness:
  "annotation (Annotations (ExportMeta kubernetes)) LogicalClusterPathAnnotationKey = ''root:compute''
   \<and> IndexKeys env_ok indexSyncTargetsByExport
        (Path_Join env_ok ''root:compute'' (Name (ExportMeta kubernetes))) = Inr [''root|west'']
   \<and> IndexKeys env_ok indexSyncTargetsByExport
        (Path_Join env_ok (logicalcluster_From env_ok (ExportMeta kubernetes))
           (Name (ExportMeta kubernetes))) = Inr [''root|east'']
   \<and> added_keys (enqueueAPIExport env_ok (APIExport_obj kubernetes) []) =
        [''root|east'', ''root|west'']
   \<and> set (added_keys (enqueueAPIExport env_ok (DeletedFinalStateUnknown ''root|kubernetes''
        (APIExport_obj kubernetes)) [])) = {''root|west'', ''root|east''}"
proof -
  have h2: "''root:compute'' =
              annotation (Annotations (ExportMeta kubernetes)) LogicalClusterPathAnnotationKey"
    by (simp add: kubernetes_def annotation_def LogicalClusterPathAnnotationKey_def)
  have h3p: "IndexKeys env_ok indexSyncTargetsByExport
                (Path_Join env_ok ''root:compute'' (Name (ExportMeta kubernetes))) =
              Inr [''root|west'']"
    by (simp add: env_ok_def kubernetes_def)
  then have h3: "''root:compute'' \<noteq> [] \<longrightarrow>
              IndexKeys env_ok indexSyncTargetsByExport
                (Path_Join env_ok ''root:compute'' (Name (ExportMeta kubernetes))) =
              Inr [''root|west'']"
    by (rule impI)
  have h4: "''root:compute'' = [] \<longrightarrow> [''root|west''] = ([] :: string list)"
    by simp
  have h5: "IndexKeys env_ok indexSyncTargetsByExport
              (Path_Join env_ok (logicalcluster_From env_ok (ExportMeta kubernetes))
                 (Name (ExportMeta kubernetes))) = Inr [''root|east'']"
    by (simp add: env_ok_def kubernetes_def annotation_def)
  have h6: "\<forall>k \<in> set [''root|west''] \<union> set [''root|east''].
              \<exists>t. GetByKey env_ok k = Inr t \<and> MetaClusterNamespaceKeyFunc env_ok t = Inr k"
    by (simp add: env_ok_def east_def west_def)
  have sorted: "sets_List ([''root|west''] @ [''root|east'']) = [''root|east'', ''root|west'']"
    by code_simp
  have a: "added_keys (enqueueAPIExport env_ok (APIExport_obj kubernetes) []) =
             [''root|east'', ''root|west'']"
    using enqueueAPIExport_unions_both_lookups
            [of "APIExport_obj kubernetes" kubernetes "[]", OF _ h2 h3 h4 h5 h6] sorted
    by simp
  have b: "set (added_keys (enqueueAPIExport env_ok (DeletedFinalStateUnknown ''root|kubernetes''
             (APIExport_obj kubernetes)) [])) = {''root|west'', ''root|east''}"
    using enqueueAPIExport_unions_both_lookups
            [of "DeletedFinalStateUnknown ''root|kubernetes'' (APIExport_obj kubernetes)"
                kubernetes "''root|kubernetes''", OF _ h2 h3 h4 h5 h6]
    by (simp add: set_sets_List)
  from h2 [symmetric] h3p h5 a b show ?thesis by blast
qed

subsection \<open>The persister\<close>

lemma process_patch_calls_unchanged:
  assumes "SplitMetaClusterNamespaceKey c key = Inr (cluster, ns, name)"
    and "syncTargetLister_Get c cluster name = Inr st"
    and "exportReconciler_reconcile c st = (cur1, err1)"
    and "apiCompatibleReconciler_reconcile c cur1 = (cur2, err2)"
    and "SyncedResources (Status cur2) = SyncedResources (Status st)"
  shows "patch_calls (snd (process c key)) = []"
proof -
  from assms(5) have "persist c key st cur2 = (None, [])"
    by (simp add: persist_equal)
  then show ?thesis
    by (simp add: process_fetched [OF assms(1-4)] patch_calls_def)
qed

text \<open>Claim C3. When the status that the two steps leave in the working copy equals the
  status of the object fetched from the store, \<open>process\<close> sends no patch. Hence a second
  pass sends none: if the store then shows the status that the first pass computed, and the
  steps, run on that object with nothing they read changed, compute the same status again,
  the second pass has no patch call among its events.\<close>

theorem process_unchanged_status_no_patch:
  assumes "SplitMetaClusterNamespaceKey c key = Inr (cluster, ns, name)"
    and "syncTargetLister_Get c cluster name = Inr st"
    and "exportReconciler_reconcile c st = (cur1, err1)"
    and "apiCompatibleReconciler_reconcile c cur1 = (cur2, err2)"
  shows "(SyncedResources (Status cur2) = SyncedResources (Status st) \<longrightarrow>
            patch_calls (snd (process c key)) = [])
       \<and> (\<forall>(c'::env) st' cur1' err1' cur2' err2'.
            SplitMetaClusterNamespaceKey c' key = Inr (cluster, ns, name) \<longrightarrow>
            syncTargetLister_Get c' cluster name = Inr st' \<longrightarrow>
            SyncedResources (Status st') = SyncedResources (Status cur2) \<longrightarrow>
            exportReconciler_reconcile c' st' = (cur1', err1') \<longrightarrow>
            apiCompatibleReconciler_reconcile c' cur1' = (cur2', err2') \<longrightarrow>
            SyncedResources (Status cur2') = SyncedResources (Status cur2) \<longrightarrow>
            patch_calls (snd (process c' key)) = [])"
proof (intro conjI allI impI)
  assume "SyncedResources (Status cur2) = SyncedResources (Status st)"
  with assms show "patch_calls (snd (process c key)) = []"
    by (rule process_patch_calls_unchanged)
next
  fix c' :: env and st' cur1' err1' cur2' err2'
  assume second: "SplitMetaClusterNamespaceKey c' key = Inr (cluster, ns, name)"
    "syncTargetLister_Get c' cluster name = Inr st'"
    "exportReconciler_reconcile c' st' = (cur1', err1')"
    "apiCompatibleReconciler_reconcile c' cur1' = (cur2', err2')"
  assume "SyncedResources (Status st') = SyncedResources (Status cur2)"
    and "SyncedResources (Status cur2') = SyncedResources (Status cur2)"
  then have "SyncedResources (Status cur2') = SyncedResources (Status st')" by simp
  with second show "patch_calls (snd (process c' key)) = []"
    by (rule process_patch_calls_unchanged)
qed

theorem process_unchanged_status_no_patch_witness:
  "SplitMetaClusterNamespaceKey env_ok ''root|east'' = Inr (''root'', [], ''east'')
   \<and> syncTargetLister_Get env_ok ''root'' ''east'' = Inr east
   \<and> patch_calls (snd (process env_ok ''root|east'')) =
        [Patch_call ''root'' ''east'' MergePatchType ''//=>uid-east/7/deployments'' [''status'']]
   \<and> SplitMetaClusterNamespaceKey env_after_patch ''root|east'' = Inr (''root'', [], ''east'')
   \<and> syncTargetLister_Get env_after_patch ''root'' ''east'' = Inr east_synced
   \<and> SyncedResources (Status east_synced) = [deployments]
   \<and> exportReconciler_reconcile env_after_patch east_synced = (east_synced, None)
   \<and> apiCompatibleReconciler_reconcile env_after_patch east_synced = (east_synced, None)
   \<and> patch_calls (snd (process env_after_patch ''root|east'')) = []"
proof -
  let ?cur = "east\<lparr>Status := \<lparr>SyncedResources = [deployments]\<rparr>\<rparr>"
  have a1: "SplitMetaClusterNamespaceKey env_ok ''root|east'' = Inr (''root'', [], ''east'')"
    by (simp add: env_ok_def)
  have a2: "syncTargetLister_Get env_ok ''root'' ''east'' = Inr east"
    by (simp add: env_ok_def)
  have a3: "exportReconciler_reconcile env_ok east = (?cur, None)"
    by (simp add: env_ok_def)
  have a4: "apiCompatibleReconciler_reconcile env_ok ?cur = (?cur, None)"
    by (simp add: env_ok_def)
  have first: "patch_calls (snd (process env_ok ''root|east'')) =
        [Patch_call ''root'' ''east'' MergePatchType ''//=>uid-east/7/deployments'' [''status'']]"
    by (simp add: process_def persist_def env_ok_def append_err_def east_def Let_def
          render_def zeroMeta_def zeroSpec_def deployments_def annotation_def patch_calls_def)
  have b1: "SplitMetaClusterNamespaceKey env_after_patch ''root|east'' = Inr (''root'', [], ''east'')"
    by (simp add: env_after_patch_def env_ok_def)
  have b2: "syncTargetLister_Get env_after_patch ''root'' ''east'' = Inr east_synced"
    by (simp add: env_after_patch_def)
  have b3: "SyncedResources (Status east_synced) = SyncedResources (Status ?cur)"
    by (simp add: east_synced_def)
  have b4: "exportReconciler_reconcile env_after_patch east_synced = (east_synced, None)"
    by (simp add: env_after_patch_def env_ok_def east_synced_def)
  have b5: "apiCompatibleReconciler_reconcile env_after_patch east_synced = (east_synced, None)"
    by (simp add: env_after_patch_def env_ok_def)
  have b6: "SyncedResources (Status east_synced) = [deployments]"
    by (simp add: east_synced_def)
  from process_unchanged_status_no_patch [OF a1 a2 a3 a4] b1 b2 b3 b4 b5
  have second: "patch_calls (snd (process env_after_patch ''root|east'')) = []"
    by blast
  from a1 a2 first b1 b2 b6 b4 b5 second show ?thesis by blast
qed

text \<open>What the persister does when the two statuses differ: one case for each way out.\<close>

lemma persist_outcomes:
  assumes "SyncedResources (Status syncTarget) \<noteq> SyncedResources (Status cur)"
    and "before = \<lparr>Meta = \<lparr>Name = [], UID = [], ResourceVersion = [], Annotations = Map.empty\<rparr>,
                   Spec = \<lparr>SupportedAPIExports = []\<rparr>,
                   Status = \<lparr>SyncedResources = SyncedResources (Status syncTarget)\<rparr>\<rparr>"
    and "after = \<lparr>Meta = \<lparr>Name = [], UID = UID (Meta syncTarget),
                           ResourceVersion = ResourceVersion (Meta syncTarget),
                           Annotations = Map.empty\<rparr>,
                  Spec = \<lparr>SupportedAPIExports = []\<rparr>,
                  Status = \<lparr>SyncedResources = SyncedResources (Status cur)\<rparr>\<rparr>"
  shows "persist c key syncTarget cur =
      (case json_Marshal c before of
         Inl err \<Rightarrow>
           (Some (Errorf ''failed to Marshal old data for placement %s: %w'' key (Some err)), [])
       | Inr oldData \<Rightarrow>
      (case json_Marshal c after of
         Inl err \<Rightarrow>
           (Some (Errorf ''failed to Marshal new data for LocationDomain %s: %w'' key (Some err)), [])
       | Inr newData \<Rightarrow>
      (case CreateMergePatch c oldData newData of
         Inl err \<Rightarrow>
           (Some err,
            [Klog Klog_Errorf ''Failed to create merge patch for syncTarget %q because: %v''
               [key] (Some err)])
       | Inr patchBytes \<Rightarrow>
          (let clusterName = logicalcluster_From c (Meta cur);
               name = Name (Meta cur);
               evs = [Klog Klog_V2_Infof ''Patching synctarget %s|%s with patch %s''
                        [clusterName, name, patchBytes] None,
                      Patch_call clusterName name MergePatchType patchBytes [''status'']]
           in (case Patch c clusterName name MergePatchType patchBytes [''status''] of
                 Some err \<Rightarrow>
                   (Some err,
                    evs @ [Klog Klog_Errorf ''failed to patch sync target status: %v'' [] (Some err)])
               | None \<Rightarrow> (None, evs))))))"
proof -
  have docs: "\<lparr>Meta = zeroMeta, Spec = zeroSpec,
               Status = \<lparr>SyncedResources = SyncedResources (Status syncTarget)\<rparr>\<rparr> = before"
    "\<lparr>Meta = zeroMeta\<lparr>UID := UID (Meta syncTarget),
                       ResourceVersion := ResourceVersion (Meta syncTarget)\<rparr>,
      Spec = zeroSpec,
      Status = \<lparr>SyncedResources = SyncedResources (Status cur)\<rparr>\<rparr> = after"
    using assms(2,3) by (simp_all add: zeroMeta_def zeroSpec_def)
  show ?thesis
    using assms(1) by (simp add: persist_def docs cong: sum.case_cong)
qed

lemma process_no_step_error:
  assumes "SplitMetaClusterNamespaceKey c key = Inr (cluster, ns, name)"
    and "syncTargetLister_Get c cluster name = Inr syncTarget"
    and "exportReconciler_reconcile c syncTarget = (cur1, None)"
    and "apiCompatibleReconciler_reconcile c cur1 = (cur, None)"
  shows "fst (process c key) = fst (persist c key syncTarget cur)"
    and "patch_calls (snd (process c key)) = patch_calls (snd (persist c key syncTarget cur))"
  by (simp_all add: process_fetched [OF assms] append_err_def patch_calls_def)

text \<open>Claim C6, as the code has it. In a pass of \<open>process\<close> in which both steps returned
  nil and the reconciled status differs from the observed one: the document that holds only
  the observed \<open>SyncedResources\<close> and the document that holds the new \<open>SyncedResources\<close>
  with the UID and the resource version of the observed object are marshalled, their merge
  patch is made and sent in exactly one \<open>Patch\<close> call, of type merge patch, on the
  \<open>status\<close> subresource of the SyncTarget, and \<open>process\<close> returns what the call returns.
  When a marshal or the making of the patch fails, \<open>process\<close> returns the error and makes
  no call.\<close>

theorem process_sends_one_merge_patch:
  assumes "SplitMetaClusterNamespaceKey c key = Inr (cluster, ns, name)"
    and "syncTargetLister_Get c cluster name = Inr syncTarget"
    and "exportReconciler_reconcile c syncTarget = (cur1, None)"
    and "apiCompatibleReconciler_reconcile c cur1 = (cur, None)"
    and "SyncedResources (Status syncTarget) \<noteq> SyncedResources (Status cur)"
    and "before = \<lparr>Meta = \<lparr>Name = [], UID = [], ResourceVersion = [], Annotations = Map.empty\<rparr>,
                   Spec = \<lparr>SupportedAPIExports = []\<rparr>,
                   Status = \<lparr>SyncedResources = SyncedResources (Status syncTarget)\<rparr>\<rparr>"
    and "after = \<lparr>Meta = \<lparr>Name = [], UID = UID (Meta syncTarget),
                           ResourceVersion = ResourceVersion (Meta syncTarget),
                           Annotations = Map.empty\<rparr>,
                  Spec = \<lparr>SupportedAPIExports = []\<rparr>,
                  Status = \<lparr>SyncedResources = SyncedResources (Status cur)\<rparr>\<rparr>"
  shows "(\<forall>oldData newData patchBytes.
            json_Marshal c before = Inr oldData \<longrightarrow>
            json_Marshal c after = Inr newData \<longrightarrow>
            CreateMergePatch c oldData newData = Inr patchBytes \<longrightarrow>
              patch_calls (snd (process c key)) =
                [Patch_call (logicalcluster_From c (Meta cur)) (Name (Meta cur))
                   ''application/merge-patch+json'' patchBytes [''status'']]
              \<and> fst (process c key) =
                  Patch c (logicalcluster_From c (Meta cur)) (Name (Meta cur))
                    ''application/merge-patch+json'' patchBytes [''status''])
       \<and> (\<forall>err. json_Marshal c before = Inl err \<longrightarrow>
            fst (process c key) =
              Some (Errorf ''failed to Marshal old data for placement %s: %w'' key (Some err))
            \<and> patch_calls (snd (process c key)) = [])
       \<and> (\<forall>oldData err.
            json_Marshal c before = Inr oldData \<longrightarrow> json_Marshal c after = Inl err \<longrightarrow>
            fst (process c key) =
              Some (Errorf ''failed to Marshal new data for LocationDomain %s: %w'' key (Some err))
            \<and> patch_calls (snd (process c key)) = [])
       \<and> (\<forall>oldData newData err.
            json_Marshal c before = Inr oldData \<longrightarrow>
            json_Marshal c after = Inr newData \<longrightarrow>
            CreateMergePatch c oldData newData = Inl err \<longrightarrow>
              fst (process c key) = Some err \<and> patch_calls (snd (process c key)) = [])"
proof -
  note reached = process_no_step_error [OF assms(1-4)]
  note unfold = persist_outcomes [OF assms(5-7), of c key]
  have sent: "patch_calls (snd (process c key)) =
                [Patch_call (logicalcluster_From c (Meta cur)) (Name (Meta cur))
                   ''application/merge-patch+json'' patchBytes [''status'']]
              \<and> fst (process c key) =
                  Patch c (logicalcluster_From c (Meta cur)) (Name (Meta cur))
                    ''application/merge-patch+json'' patchBytes [''status'']"
    if "json_Marshal c before = Inr oldData" "json_Marshal c after = Inr newData"
       "CreateMergePatch c oldData newData = Inr patchBytes"
    for oldData newData patchBytes
    using that unfolding reached
    by (simp add: unfold Let_def patch_calls_def MergePatchType_def split: option.splits)
  have old_fails: "fst (process c key) =
              Some (Errorf ''failed to Marshal old data for placement %s: %w'' key (Some err))
            \<and> patch_calls (snd (process c key)) = []"
    if "json_Marshal c before = Inl err" for err
    using that unfolding reached by (simp add: unfold patch_calls_def)
  have new_fails: "fst (process c key) =
              Some (Errorf ''failed to Marshal new data for LocationDomain %s: %w'' key (Some err))
            \<and> patch_calls (snd (process c key)) = []"
    if "json_Marshal c before = Inr oldData" "json_Marshal c after = Inl err" for oldData err
    using that unfolding reached by (simp add: unfold patch_calls_def)
  have merge_fails: "fst (process c key) = Some err \<and> patch_calls (snd (process c key)) = []"
    if "json_Marshal c before = Inr oldData" "json_Marshal c after = Inr newData"
       "CreateMergePatch c oldData newData = Inl err"
    for oldData newData err
    using that unfolding reached by (simp add: unfold patch_calls_def)
  from sent old_fails new_fails merge_fails show ?thesis by blast
qed

theorem process_sends_one_merge_patch_witness:
  "SplitMetaClusterNamespaceKey env_ok ''root|east'' = Inr (''root'', [], ''east'')
   \<and> syncTargetLister_Get env_ok ''root'' ''east'' = Inr east
   \<and> exportReconciler_reconcile env_ok east =
        (east\<lparr>Status := \<lparr>SyncedResources = [deployments]\<rparr>\<rparr>, None)
   \<and> apiCompatibleReconciler_reconcile env_ok (east\<lparr>Status := \<lparr>SyncedResources = [deployments]\<rparr>\<rparr>) =
        (east\<lparr>Status := \<lparr>SyncedResources = [deployments]\<rparr>\<rparr>, None)
   \<and> SyncedResources (Status east) \<noteq>
        SyncedResources (Status (east\<lparr>Status := \<lparr>SyncedResources = [deployments]\<rparr>\<rparr>))
   \<and> patch_calls (snd (process env_ok ''root|east'')) =
       [Patch_call ''root'' ''east'' ''application/merge-patch+json''
          ''//=>uid-east/7/deployments'' [''status'']]
   \<and> fst (process env_ok ''root|east'') = None
   \<and> fst (process env_marshal_fails ''root|east'') =
       Some (Errorf ''failed to Marshal old data for placement %s: %w'' ''root|east''
               (Some (Err ''json: unsupported value'')))
   \<and> patch_calls (snd (process env_marshal_fails ''root|east'')) = []
   \<and> fst (process env_marshal_new_fails ''root|east'') =
       Some (Errorf ''failed to Marshal new data for LocationDomain %s: %w'' ''root|east''
               (Some (Err ''json: unsupported value'')))
   \<and> patch_calls (snd (process env_marshal_new_fails ''root|east'')) = []
   \<and> fst (process env_merge_fails ''root|east'') = Some (Err ''Invalid JSON Document'')
   \<and> patch_calls (snd (process env_merge_fails ''root|east'')) = []"
proof -
  let ?cur = "east\<lparr>Status := \<lparr>SyncedResources = [deployments]\<rparr>\<rparr>"
  let ?before = "\<lparr>Meta = \<lparr>Name = [], UID = [], ResourceVersion = [], Annotations = Map.empty\<rparr>,
                  Spec = \<lparr>SupportedAPIExports = []\<rparr>,
                  Status = \<lparr>SyncedResources = SyncedResources (Status east)\<rparr>\<rparr>"
  let ?after = "\<lparr>Meta = \<lparr>Name = [], UID = UID (Meta east),
                          ResourceVersion = ResourceVersion (Meta east),
                          Annotations = Map.empty\<rparr>,
                 Spec = \<lparr>SupportedAPIExports = []\<rparr>,
                 Status = \<lparr>SyncedResources = SyncedResources (Status ?cur)\<rparr>\<rparr>"
  have differs: "SyncedResources (Status east) \<noteq> SyncedResources (Status ?cur)"
    by (simp add: east_def)
  have cur: "logicalcluster_From env_ok (Meta ?cur) = ''root''" "Name (Meta ?cur) = ''east''"
    by (simp_all add: env_ok_def east_def annotation_def)
  have ok: "json_Marshal env_ok ?before = Inr ''//''"
    "json_Marshal env_ok ?after = Inr ''uid-east/7/deployments''"
    "CreateMergePatch env_ok ''//'' ''uid-east/7/deployments'' = Inr ''//=>uid-east/7/deployments''"
    "Patch env_ok ''root'' ''east'' ''application/merge-patch+json''
       ''//=>uid-east/7/deployments'' [''status''] = None"
    by (simp_all add: env_ok_def render_def east_def deployments_def)
  have p0: "SplitMetaClusterNamespaceKey env_ok ''root|east'' = Inr (''root'', [], ''east'')"
    "syncTargetLister_Get env_ok ''root'' ''east'' = Inr east"
    "exportReconciler_reconcile env_ok east = (?cur, None)"
    "apiCompatibleReconciler_reconcile env_ok ?cur = (?cur, None)"
    by (simp_all add: env_ok_def)
  have p1: "SplitMetaClusterNamespaceKey env_marshal_fails ''root|east'' = Inr (''root'', [], ''east'')"
    "syncTargetLister_Get env_marshal_fails ''root'' ''east'' = Inr east"
    "exportReconciler_reconcile env_marshal_fails east = (?cur, None)"
    "apiCompatibleReconciler_reconcile env_marshal_fails ?cur = (?cur, None)"
    by (simp_all add: env_marshal_fails_def env_ok_def)
  have p2: "SplitMetaClusterNamespaceKey env_marshal_new_fails ''root|east'' = Inr (''root'', [], ''east'')"
    "syncTargetLister_Get env_marshal_new_fails ''root'' ''east'' = Inr east"
    "exportReconciler_reconcile env_marshal_new_fails east = (?cur, None)"
    "apiCompatibleReconciler_reconcile env_marshal_new_fails ?cur = (?cur, None)"
    by (simp_all add: env_marshal_new_fails_def env_ok_def)
  have p3: "SplitMetaClusterNamespaceKey env_merge_fails ''root|east'' = Inr (''root'', [], ''east'')"
    "syncTargetLister_Get env_merge_fails ''root'' ''east'' = Inr east"
    "exportReconciler_reconcile env_merge_fails east = (?cur, None)"
    "apiCompatibleReconciler_reconcile env_merge_fails ?cur = (?cur, None)"
    by (simp_all add: env_merge_fails_def env_ok_def)
  have f1: "json_Marshal env_marshal_fails ?before = Inl (Err ''json: unsupported value'')"
    by (simp add: env_marshal_fails_def)
  have f2: "json_Marshal env_marshal_new_fails ?before = Inr ''//''"
    "json_Marshal env_marshal_new_fails ?after = Inl (Err ''json: unsupported value'')"
    by (simp_all add: env_marshal_new_fails_def render_def east_def)
  have f3: "json_Marshal env_merge_fails ?before = Inr ''//''"
    "json_Marshal env_merge_fails ?after = Inr ''uid-east/7/deployments''"
    "CreateMergePatch env_merge_fails ''//'' ''uid-east/7/deployments'' =
       Inl (Err ''Invalid JSON Document'')"
    by (simp_all add: env_merge_fails_def env_ok_def render_def east_def deployments_def)
  note at_ok = process_sends_one_merge_patch [OF p0 differs refl refl]
  note at_f1 = process_sends_one_merge_patch [OF p1 differs refl refl]
  note at_f2 = process_sends_one_merge_patch [OF p2 differs refl refl]
  note at_f3 = process_sends_one_merge_patch [OF p3 differs refl refl]
  from at_ok ok(1-3) have sent:
    "patch_calls (snd (process env_ok ''root|east'')) =
       [Patch_call (logicalcluster_From env_ok (Meta ?cur)) (Name (Meta ?cur))
          ''application/merge-patch+json'' ''//=>uid-east/7/deployments'' [''status'']]
     \<and> fst (process env_ok ''root|east'') =
         Patch env_ok (logicalcluster_From env_ok (Meta ?cur)) (Name (Meta ?cur))
           ''application/merge-patch+json'' ''//=>uid-east/7/deployments'' [''status'']"
    by blast
  then have w1: "patch_calls (snd (process env_ok ''root|east'')) =
       [Patch_call ''root'' ''east'' ''application/merge-patch+json''
          ''//=>uid-east/7/deployments'' [''status'']]"
    and w2: "fst (process env_ok ''root|east'') = None"
    by (simp_all only: cur ok(4))
  from at_f1 f1 have w3: "fst (process env_marshal_fails ''root|east'') =
       Some (Errorf ''failed to Marshal old data for placement %s: %w'' ''root|east''
               (Some (Err ''json: unsupported value'')))
     \<and> patch_calls (snd (process env_marshal_fails ''root|east'')) = []"
    by blast
  from at_f2 f2 have w4: "fst (process env_marshal_new_fails ''root|east'') =
       Some (Errorf ''failed to Marshal new data for LocationDomain %s: %w'' ''root|east''
               (Some (Err ''json: unsupported value'')))
     \<and> patch_calls (snd (process env_marshal_new_fails ''root|east'')) = []"
    by blast
  from at_f3 f3 have w5: "fst (process env_merge_fails ''root|east'') =
       Some (Err ''Invalid JSON Document'')
     \<and> patch_calls (snd (process env_merge_fails ''root|east'')) = []"
    by blast
  from p0 differs w1 w2 w3 w4 w5 show ?thesis by blast
qed

text \<open>Claim C6, as the spec has it, fails: a differing status alone does not bring an
  update. In \<open>env_compat_error\<close> the export step writes one resource into the status of
  \<open>east\<close>, whose observed status is empty, and the compatibility step returns an error. Both
  documents marshal and their merge patch can be made, yet \<open>process\<close> returns the aggregate
  and sends no patch.\<close>

theorem process_differs_no_update_counterexample:
  "SyncedResources (Status (fst (apiCompatibleReconciler_reconcile env_compat_error
        (fst (exportReconciler_reconcile env_compat_error east))))) = [deployments]
   \<and> SyncedResources (Status east) = []
   \<and> json_Marshal env_compat_error
        \<lparr>Meta = zeroMeta, Spec = zeroSpec, Status = \<lparr>SyncedResources = []\<rparr>\<rparr> = Inr ''//''
   \<and> json_Marshal env_compat_error
        \<lparr>Meta = zeroMeta\<lparr>UID := UID (Meta east), ResourceVersion := ResourceVersion (Meta east)\<rparr>,
         Spec = zeroSpec, Status = \<lparr>SyncedResources = [deployments]\<rparr>\<rparr> =
        Inr ''uid-east/7/deployments''
   \<and> CreateMergePatch env_compat_error ''//'' ''uid-east/7/deployments'' =
        Inr ''//=>uid-east/7/deployments''
   \<and> process env_compat_error ''root|east'' =
        (Some (Aggregate [Err ''cannot list imports'']),
         [Klog Klog_Infof ''Processing syncTarget %q'' [''root|east''] None,
          Reconcile Export_step, Reconcile APICompatible_step])
   \<and> patch_calls (snd (process env_compat_error ''root|east'')) = []"
  by (simp add: process_def env_compat_error_def env_ok_def append_err_def NewAggregate_def
        patch_calls_def east_def render_def zeroMeta_def zeroSpec_def deployments_def)

end
